theory Spec2Isabelle
  imports Main
begin

section \<open>The note service of main.go\<close>

text \<open>
  The program is an HTTP service with five handlers over one SQLite table. The handlers
  are embedded as functions of the process state (the package-level variable \<open>db\<close> and
  the contents of the table \<open>notes\<close> in the database file), of the request, and of what
  the outside world answers during the call (the clock, errors reported by the driver).

  Three library functions are not part of the repository and are taken as parameters:
  the JSON decoder applied to a request body, the JSON encoding of a \<open>time.Time\<close>, and
  the conversion SQLite applies to a text parameter compared with an INTEGER column.
  Every theorem below holds for all of them.
\<close>

subsection \<open>Data\<close>

text \<open>A \<open>time.Time\<close> is modelled by the instant it denotes (nanoseconds since the epoch).\<close>

type_synonym time = int

text \<open>\<open>type Note struct\<close>, main.go lines 15-20.\<close>

record Note =
  ID :: int
  Title :: string
  Content :: string
  CreatedAt :: time

text \<open>
  Go errors: \<open>sql.ErrNoRows\<close> is a sentinel compared with \<open>==\<close>; every other
  error is known by its text only.
\<close>

datatype error = ErrNoRows | DriverError string

fun Error_text :: "error \<Rightarrow> string" where
  "Error_text ErrNoRows = ''sql: no rows in result set''"
| "Error_text (DriverError e) = e"

text \<open>A \<open>*sql.DB\<close> is \<open>None\<close> when nil, else a handle on a driver and a data source.\<close>

datatype sqlDB = SqlDB string string

text \<open>
  The table \<open>notes (id INTEGER PRIMARY KEY AUTOINCREMENT, title TEXT, content TEXT,
  created_at DATETIME)\<close>: its rows in scan order, and the largest rowid ever used, which
  SQLite keeps in \<open>sqlite_sequence\<close> for an AUTOINCREMENT table.
\<close>

record row =
  rid :: int
  rtitle :: string
  rcontent :: string
  rcreated :: time

record table =
  rows :: "row list"
  sqlite_sequence :: int

text \<open>
  The process state: the package-level \<open>var db *sql.DB\<close> (line 23) and the table of the
  file \<open>./notes.db\<close> (\<open>None\<close>: the table does not exist).
\<close>

record world =
  db :: "sqlDB option"
  notes_table :: "table option"

text \<open>
  What the outside world answers during one call: the clock, the error the driver reports
  for the statement (if any), and, while the rows of get-all are read, the error that
  \<open>rows.Next()\<close> or \<open>rows.Scan\<close> meets at the \<open>k\<close>-th row (if any).
\<close>

record io =
  now :: time
  fault :: "string option"
  next_fault :: "nat \<Rightarrow> string option"
  scan_fault :: "nat \<Rightarrow> string option"

text \<open>
  The library parameters. \<open>decode\<close> is \<open>json.NewDecoder(r.Body).Decode(&note)\<close> on a
  zero \<open>Note\<close>: the error text, or the decoded value. \<open>timeJSON\<close> is the encoding of a
  \<open>time.Time\<close> inside \<open>json.Marshal\<close>: the error text of \<open>json.Marshal\<close>, or the
  RFC 3339 text. \<open>numeric\<close> is the integer SQLite reads a bound text as when it compares
  it with the INTEGER column \<open>id\<close> (\<open>None\<close>: the text equals no integer).
\<close>

record lib =
  decode :: "string \<Rightarrow> string + Note"
  timeJSON :: "time \<Rightarrow> string + string"
  numeric :: "string \<Rightarrow> int option"

text \<open>How a call of the program ends.\<close>

datatype 'a outcome = Returns 'a | Panics | Exits string

subsection \<open>The response writer\<close>

text \<open>
  A JSON document, and a response: the status line, the headers, and what each call of
  \<open>Write\<close> appended to the body (plain text or an encoded document).
\<close>

datatype json = JNull | JNumber int | JString string | JArray "json list"
  | JObject "(string \<times> json) list"

datatype chunk = Text string | Doc json

record response =
  status :: nat
  headers :: "(string \<times> string) list"
  body :: "chunk list"

definition new_writer :: response where
  "new_writer = \<lparr>status = 0, headers = [], body = []\<rparr>"

fun set_header :: "string \<Rightarrow> string \<Rightarrow> (string \<times> string) list \<Rightarrow> (string \<times> string) list" where
  "set_header k v [] = [(k, v)]"
| "set_header k v ((k', v') # hs) =
     (if k' = k then (k, v) # hs else (k', v') # set_header k v hs)"

definition Header_Set :: "string \<Rightarrow> string \<Rightarrow> response \<Rightarrow> response" where
  "Header_Set k v w = w\<lparr>headers := set_header k v (headers w)\<rparr>"

definition WriteHeader :: "nat \<Rightarrow> response \<Rightarrow> response" where
  "WriteHeader code w = w\<lparr>status := code\<rparr>"

definition Write :: "chunk \<Rightarrow> response \<Rightarrow> response" where
  "Write c w = w\<lparr>body := body w @ [c]\<rparr>"

text \<open>
  \<open>http.Error\<close> sets two headers, writes the status and prints the message followed by a
  newline; \<open>http.NotFound\<close> is \<open>http.Error\<close> with a fixed message.
\<close>

definition http_Error :: "response \<Rightarrow> string \<Rightarrow> nat \<Rightarrow> response" where
  "http_Error w msg code =
     Write (Text (msg @ [CHR 0x0A]))
       (WriteHeader code
         (Header_Set ''X-Content-Type-Options'' ''nosniff''
           (Header_Set ''Content-Type'' ''text/plain; charset=utf-8'' w)))"

definition http_NotFound :: "response \<Rightarrow> response" where
  "http_NotFound w = http_Error w ''404 page not found'' 404"

definition StatusOK :: nat where "StatusOK = 200"
definition StatusCreated :: nat where "StatusCreated = 201"
definition StatusBadRequest :: nat where "StatusBadRequest = 400"
definition StatusInternalServerError :: nat where "StatusInternalServerError = 500"

subsection \<open>encoding/json on the program's types\<close>

text \<open>
  \<open>json.Marshal\<close> of a \<open>Note\<close> writes the four tagged fields in order and fails only
  where the time does. A slice is \<open>None\<close> when nil: \<open>json.Marshal\<close> encodes a nil slice
  as \<open>null\<close> and any other slice as an array; \<open>append\<close> to a nil slice allocates.
\<close>

definition Marshal_Note :: "lib \<Rightarrow> Note \<Rightarrow> string + json" where
  "Marshal_Note L n =
     (case timeJSON L (CreatedAt n) of
        Inl err \<Rightarrow> Inl err
      | Inr ts \<Rightarrow> Inr (JObject [(''id'', JNumber (ID n)), (''title'', JString (Title n)),
          (''content'', JString (Content n)), (''created_at'', JString ts)]))"

fun Marshal_elems :: "lib \<Rightarrow> Note list \<Rightarrow> string + json list" where
  "Marshal_elems L [] = Inr []"
| "Marshal_elems L (n # ns) =
     (case Marshal_Note L n of
        Inl err \<Rightarrow> Inl err
      | Inr j \<Rightarrow> (case Marshal_elems L ns of Inl err \<Rightarrow> Inl err | Inr js \<Rightarrow> Inr (j # js)))"

definition Marshal_Notes :: "lib \<Rightarrow> Note list option \<Rightarrow> string + json" where
  "Marshal_Notes L s =
     (case s of
        None \<Rightarrow> Inr JNull
      | Some ns \<Rightarrow> (case Marshal_elems L ns of Inl err \<Rightarrow> Inl err | Inr js \<Rightarrow> Inr (JArray js)))"

definition append_slice :: "'a list option \<Rightarrow> 'a \<Rightarrow> 'a list option" where
  "append_slice s x = (case s of None \<Rightarrow> Some [x] | Some xs \<Rightarrow> Some (xs @ [x]))"

text \<open>
  Rowids are 64-bit signed integers; the model keeps them as integers, and \<open>sql_insert\<close>
  below refuses to go past the largest one. The program is taken on a platform whose
  \<open>int\<close> has 64 bits. The conversion \<open>int(id)\<close> in \<open>createNote\<close> is the value in
  two's complement; the scan of the column \<open>id\<close> into an \<open>int\<close> keeps the rowid.
\<close>

definition go_int :: "int \<Rightarrow> int" where
  "go_int x = (x + 2 ^ 63) mod 2 ^ 64 - 2 ^ 63"

subsection \<open>The five SQL statements\<close>

text \<open>
  Each statement is given the error the driver reports for it, if any. A statement on a
  missing table is an error. A row matches \<open>WHERE id=?\<close> when the bound text reads as its
  rowid.
\<close>

definition no_such_table :: string where
  "no_such_table = ''no such table: notes''"

definition max_rowid :: int where
  "max_rowid = 9223372036854775807"

definition matches :: "lib \<Rightarrow> string \<Rightarrow> row \<Rightarrow> bool" where
  "matches L s r = (numeric L s = Some (rid r))"

text \<open>\<open>CREATE TABLE IF NOT EXISTS notes (...)\<close>\<close>

definition sql_create_table :: "string option \<Rightarrow> table option \<Rightarrow> string + table" where
  "sql_create_table f tb =
     (case f of
        Some e \<Rightarrow> Inl e
      | None \<Rightarrow> (case tb of
          None \<Rightarrow> Inr \<lparr>rows = [], sqlite_sequence = 0\<rparr>
        | Some t \<Rightarrow> Inr t))"

text \<open>
  \<open>INSERT INTO notes (title, content, created_at) VALUES (?, ?, ?)\<close>: AUTOINCREMENT
  takes one more than the largest rowid that ever was in the table, and fails once that
  is the largest 64-bit integer. The result carries the new rowid.
\<close>

definition next_rowid :: "table \<Rightarrow> int" where
  "next_rowid t = fold max (map rid (rows t)) (sqlite_sequence t) + 1"

definition sql_insert ::
  "string option \<Rightarrow> table option \<Rightarrow> string \<Rightarrow> string \<Rightarrow> time \<Rightarrow> string + (int \<times> table)" where
  "sql_insert f tb ti co ts =
     (case f of
        Some e \<Rightarrow> Inl e
      | None \<Rightarrow> (case tb of
          None \<Rightarrow> Inl no_such_table
        | Some t \<Rightarrow>
            (if max_rowid < next_rowid t then Inl ''database or disk is full''
             else Inr (next_rowid t,
               \<lparr>rows = rows t @
                  [\<lparr>rid = next_rowid t, rtitle = ti, rcontent = co, rcreated = ts\<rparr>],
                sqlite_sequence = next_rowid t\<rparr>))))"

text \<open>\<open>SELECT id, title, content, created_at FROM notes WHERE id=?\<close>, first row.\<close>

definition sql_select_one :: "string option \<Rightarrow> table option \<Rightarrow> lib \<Rightarrow> string \<Rightarrow> error + row" where
  "sql_select_one f tb L s =
     (case f of
        Some e \<Rightarrow> Inl (DriverError e)
      | None \<Rightarrow> (case tb of
          None \<Rightarrow> Inl (DriverError no_such_table)
        | Some t \<Rightarrow> (case find (matches L s) (rows t) of
            None \<Rightarrow> Inl ErrNoRows
          | Some r \<Rightarrow> Inr r)))"

text \<open>\<open>SELECT id, title, content, created_at FROM notes\<close>\<close>

definition sql_select_all :: "string option \<Rightarrow> table option \<Rightarrow> string + row list" where
  "sql_select_all f tb =
     (case f of
        Some e \<Rightarrow> Inl e
      | None \<Rightarrow> (case tb of None \<Rightarrow> Inl no_such_table | Some t \<Rightarrow> Inr (rows t)))"

text \<open>\<open>UPDATE notes SET title=?, content=? WHERE id=?\<close>\<close>

definition set_fields :: "lib \<Rightarrow> string \<Rightarrow> string \<Rightarrow> string \<Rightarrow> row \<Rightarrow> row" where
  "set_fields L ti co s r = (if matches L s r then r\<lparr>rtitle := ti, rcontent := co\<rparr> else r)"

definition sql_update ::
  "string option \<Rightarrow> table option \<Rightarrow> lib \<Rightarrow> string \<Rightarrow> string \<Rightarrow> string \<Rightarrow> string + table" where
  "sql_update f tb L ti co s =
     (case f of
        Some e \<Rightarrow> Inl e
      | None \<Rightarrow> (case tb of
          None \<Rightarrow> Inl no_such_table
        | Some t \<Rightarrow> Inr (t\<lparr>rows := map (set_fields L ti co s) (rows t)\<rparr>)))"

text \<open>\<open>DELETE FROM notes WHERE id=?\<close>\<close>

definition sql_delete :: "string option \<Rightarrow> table option \<Rightarrow> lib \<Rightarrow> string \<Rightarrow> string + table" where
  "sql_delete f tb L s =
     (case f of
        Some e \<Rightarrow> Inl e
      | None \<Rightarrow> (case tb of
          None \<Rightarrow> Inl no_such_table
        | Some t \<Rightarrow> Inr (t\<lparr>rows := filter (\<lambda>r. \<not> matches L s r) (rows t)\<rparr>)))"

subsection \<open>initialization, lines 28-39\<close>

text \<open>
  \<open>sql.Open\<close> fails for a driver that is not registered (its message quotes the name,
  written here for a name that needs no escape); the program registers \<open>sqlite3\<close> by its
  blank import. The statement \<open>db, err := sql.Open(...)\<close> declares
  both names in the scope of the function: the handle is held by a local variable, and
  the package-level \<open>db\<close> is not assigned. \<open>log.Fatal\<close> ends the process.
\<close>

definition sql_Open :: "string \<Rightarrow> string \<Rightarrow> string + sqlDB" where
  "sql_Open driver dsn =
     (if driver = ''sqlite3'' then Inr (SqlDB driver dsn)
      else Inl (''sql: unknown driver '' @ [CHR 0x22] @ driver @ [CHR 0x22]
        @ '' (forgotten import?)''))"

definition initialization :: "io \<Rightarrow> world \<Rightarrow> world outcome" where
  "initialization e w =
     (case sql_Open ''sqlite3'' ''./notes.db'' of
        Inl err \<Rightarrow> Exits err
      | Inr local_db \<Rightarrow>
          (case sql_create_table (fault e) (notes_table w) of
             Inl err \<Rightarrow> Exits err
           | Inr t \<Rightarrow> Returns (w\<lparr>notes_table := Some t\<rparr>)))"

text \<open>The state in which \<open>main\<close> starts: \<open>db\<close> is the zero value of a pointer.\<close>

definition process_start :: "table option \<Rightarrow> world" where
  "process_start tb = \<lparr>db = None, notes_table = tb\<rparr>"

subsection \<open>createNote, lines 50-80\<close>

text \<open>
  \<open>result.LastInsertId()\<close> on the result of the insert. The driver that the program links
  (\<open>github.com/mattn/go-sqlite3\<close>, line 11) returns the rowid of the insert with a nil
  error. \<open>createNote\<close> keeps the value and discards the error (\<open>id, _ :=\<close>, line 67).
\<close>

definition LastInsertId :: "int \<Rightarrow> int \<times> string option" where
  "LastInsertId rowid = (rowid, None)"

definition json_reply :: "nat \<Rightarrow> response" where
  "json_reply code = WriteHeader code (Header_Set ''Content-Type'' ''application/json'' new_writer)"

definition createNote :: "lib \<Rightarrow> io \<Rightarrow> world \<Rightarrow> string \<Rightarrow> response outcome \<times> world" where
  "createNote L e w reqbody =
     (case decode L reqbody of
        Inl err \<Rightarrow> (Returns (http_Error new_writer err StatusBadRequest), w)
      | Inr note \<Rightarrow>
          (let note = note\<lparr>CreatedAt := now e\<rparr> in
           case db w of
             None \<Rightarrow> (Panics, w)
           | Some h \<Rightarrow>
               (case sql_insert (fault e) (notes_table w) (Title note) (Content note) (CreatedAt note) of
                  Inl err \<Rightarrow> (Returns (http_Error new_writer err StatusInternalServerError), w)
                | Inr (rowid, t) \<Rightarrow>
                    (case LastInsertId rowid of
                       (newid, discarded) \<Rightarrow>
                         (let note = note\<lparr>ID := go_int newid\<rparr>;
                              w = w\<lparr>notes_table := Some t\<rparr>
                          in case Marshal_Note L note of
                               Inl err \<Rightarrow>
                                 (Returns (http_Error new_writer err StatusBadRequest), w)
                             | Inr resp \<Rightarrow>
                                 (Returns (Write (Doc resp) (json_reply StatusCreated)), w))))))"

subsection \<open>getNote, lines 89-113\<close>

definition Scan :: "row \<Rightarrow> Note" where
  "Scan r = \<lparr>ID = rid r, Title = rtitle r, Content = rcontent r, CreatedAt = rcreated r\<rparr>"

definition getNote :: "lib \<Rightarrow> io \<Rightarrow> world \<Rightarrow> string \<Rightarrow> response outcome \<times> world" where
  "getNote L e w idp =
     (case db w of
        None \<Rightarrow> (Panics, w)
      | Some h \<Rightarrow>
          (case sql_select_one (fault e) (notes_table w) L idp of
             Inl err \<Rightarrow>
               (if err = ErrNoRows then (Returns (http_NotFound new_writer), w)
                else (Returns (http_Error new_writer (Error_text err) StatusInternalServerError), w))
           | Inr r \<Rightarrow>
               (case Marshal_Note L (Scan r) of
                  Inl err \<Rightarrow> (Returns (http_Error new_writer err StatusBadRequest), w)
                | Inr resp \<Rightarrow> (Returns (Write (Doc resp) (json_reply StatusOK)), w))))"

subsection \<open>getNotes, lines 121-152\<close>

text \<open>
  The loop \<open>for rows.Next()\<close>. When \<open>rows.Next()\<close> meets an error at the \<open>k\<close>-th row it
  returns false as it does after the last row, and the handler never reads
  \<open>rows.Err()\<close>: the loop ends with the notes read so far. Else the row is scanned: an
  error of the scan ends the handler, else the note is appended. \<open>notes\<close> starts as the
  nil slice of \<open>var notes []Note\<close>.
\<close>

fun scan_loop :: "(nat \<Rightarrow> string option) \<Rightarrow> (nat \<Rightarrow> string option) \<Rightarrow> nat \<Rightarrow> row list
    \<Rightarrow> Note list option \<Rightarrow> string + Note list option" where
  "scan_loop nf sf k [] acc = Inr acc"
| "scan_loop nf sf k (r # rs) acc =
     (case nf k of
        Some err \<Rightarrow> Inr acc
      | None \<Rightarrow>
          (case sf k of
             Some err \<Rightarrow> Inl err
           | None \<Rightarrow> scan_loop nf sf (Suc k) rs (append_slice acc (Scan r))))"

definition getNotes :: "lib \<Rightarrow> io \<Rightarrow> world \<Rightarrow> response outcome \<times> world" where
  "getNotes L e w =
     (case db w of
        None \<Rightarrow> (Panics, w)
      | Some h \<Rightarrow>
          (case sql_select_all (fault e) (notes_table w) of
             Inl err \<Rightarrow> (Returns (http_Error new_writer err StatusInternalServerError), w)
           | Inr rs \<Rightarrow>
               (case scan_loop (next_fault e) (scan_fault e) 0 rs None of
                  Inl err \<Rightarrow> (Returns (http_Error new_writer err StatusInternalServerError), w)
                | Inr ns \<Rightarrow>
                    (case Marshal_Notes L ns of
                       Inl err \<Rightarrow> (Returns (http_Error new_writer err StatusBadRequest), w)
                     | Inr resp \<Rightarrow> (Returns (Write (Doc resp) (json_reply StatusOK)), w)))))"

subsection \<open>updateNote, lines 162-180, and deleteNote, lines 187-198\<close>

definition updateNote :: "lib \<Rightarrow> io \<Rightarrow> world \<Rightarrow> string \<Rightarrow> string \<Rightarrow> response outcome \<times> world" where
  "updateNote L e w idp reqbody =
     (case decode L reqbody of
        Inl err \<Rightarrow> (Returns (http_Error new_writer err StatusBadRequest), w)
      | Inr note \<Rightarrow>
          (case db w of
             None \<Rightarrow> (Panics, w)
           | Some h \<Rightarrow>
               (case sql_update (fault e) (notes_table w) L (Title note) (Content note) idp of
                  Inl err \<Rightarrow> (Returns (http_Error new_writer err StatusInternalServerError), w)
                | Inr t \<Rightarrow> (Returns (json_reply StatusOK), w\<lparr>notes_table := Some t\<rparr>))))"

definition deleteNote :: "lib \<Rightarrow> io \<Rightarrow> world \<Rightarrow> string \<Rightarrow> response outcome \<times> world" where
  "deleteNote L e w idp =
     (case db w of
        None \<Rightarrow> (Panics, w)
      | Some h \<Rightarrow>
          (case sql_delete (fault e) (notes_table w) L idp of
             Inl err \<Rightarrow> (Returns (http_Error new_writer err StatusInternalServerError), w)
           | Inr t \<Rightarrow> (Returns (json_reply StatusOK), w\<lparr>notes_table := Some t\<rparr>)))"

subsection \<open>The routes of main, lines 206-210\<close>

datatype request =
    POST_note string
  | GET_note string
  | GET_notes
  | PATCH_note string string
  | DELETE_note string

fun route :: "lib \<Rightarrow> io \<Rightarrow> world \<Rightarrow> request \<Rightarrow> response outcome \<times> world" where
  "route L e w (POST_note reqbody) = createNote L e w reqbody"
| "route L e w (GET_note idp) = getNote L e w idp"
| "route L e w GET_notes = getNotes L e w"
| "route L e w (PATCH_note idp reqbody) = updateNote L e w idp reqbody"
| "route L e w (DELETE_note idp) = deleteNote L e w idp"

text \<open>Requests served one after the other, each with its own answers of the world.\<close>

fun serve :: "lib \<Rightarrow> world \<Rightarrow> (io \<times> request) list \<Rightarrow> response outcome list \<times> world" where
  "serve L w [] = ([], w)"
| "serve L w ((e, rq) # rest) =
     (case route L e w rq of
        (out, w') \<Rightarrow> (case serve L w' rest of (outs, w'') \<Rightarrow> (out # outs, w'')))"

text \<open>The id a reply of create carries: the first member of the document of a 201.\<close>

fun created_id :: "response outcome \<Rightarrow> int option" where
  "created_id (Returns r) =
     (if status r = StatusCreated then
        (case body r of
           [Doc (JObject ((k, JNumber i) # members))] \<Rightarrow> Some i
         | _ \<Rightarrow> None)
      else None)"
| "created_id Panics = None"
| "created_id (Exits msg) = None"

text \<open>The value of \<open>sqlite_sequence\<close> in a world (0 where the table does not exist).\<close>

definition wseq :: "world \<Rightarrow> int" where
  "wseq w = (case notes_table w of None \<Rightarrow> 0 | Some t \<Rightarrow> sqlite_sequence t)"

subsection \<open>Sample parameters, for evaluating the handlers\<close>

text \<open>
  A decoder that accepts a body of the shape \<open>title|content\<close> stands in for the JSON
  decoder, a fixed text for the time encoding, and the reading of one decimal digit for
  the numeric conversion.
\<close>

definition sample_decode :: "string \<Rightarrow> string + Note" where
  "sample_decode s =
     (if CHR ''|'' \<in> set s
      then Inr \<lparr>ID = 0, Title = takeWhile (\<lambda>c. c \<noteq> CHR ''|'') s,
                Content = tl (dropWhile (\<lambda>c. c \<noteq> CHR ''|'') s), CreatedAt = 0\<rparr>
      else Inl ''invalid character'')"

definition sample_numeric :: "string \<Rightarrow> int option" where
  "sample_numeric s =
     (if s = ''1'' then Some 1 else if s = ''2'' then Some 2 else if s = ''3'' then Some 3
      else None)"

definition sample_lib :: lib where
  "sample_lib = \<lparr>decode = sample_decode, timeJSON = (\<lambda>t. Inr ''2024-01-01T00:00:00Z''),
     numeric = sample_numeric\<rparr>"

definition quiet :: "time \<Rightarrow> io" where
  "quiet t = \<lparr>now = t, fault = None, next_fault = (\<lambda>k. None), scan_fault = (\<lambda>k. None)\<rparr>"

definition open_world :: "table \<Rightarrow> world" where
  "open_world t = \<lparr>db = Some (SqlDB ''sqlite3'' ''./notes.db''), notes_table = Some t\<rparr>"

definition empty_table :: table where
  "empty_table = \<lparr>rows = [], sqlite_sequence = 0\<rparr>"

definition one_note :: table where
  "one_note = \<lparr>rows = [\<lparr>rid = 1, rtitle = ''Test'', rcontent = ''Body'', rcreated = 7\<rparr>],
     sqlite_sequence = 1\<rparr>"

section \<open>Properties\<close>

subsection \<open>Unfolding and arithmetic lemmas\<close>

lemmas writer_defs = new_writer_def Header_Set_def WriteHeader_def Write_def http_Error_def
  http_NotFound_def json_reply_def StatusOK_def StatusCreated_def StatusBadRequest_def
  StatusInternalServerError_def

lemmas sample_defs = sample_lib_def sample_decode_def sample_numeric_def quiet_def
  open_world_def empty_table_def one_note_def process_start_def

lemmas handler_defs = createNote_def getNote_def getNotes_def updateNote_def deleteNote_def
  sql_insert_def sql_select_one_def sql_select_all_def sql_update_def sql_delete_def
  sql_create_table_def next_rowid_def max_rowid_def matches_def set_fields_def Scan_def
  Marshal_Note_def Marshal_Notes_def append_slice_def go_int_def LastInsertId_def Let_def

lemma fold_max_ge: "(a::int) \<le> fold max xs a"
proof (induction xs arbitrary: a)
  case Nil
  show ?case by simp
next
  case (Cons x xs)
  have "a \<le> max x a" by simp
  also have "\<dots> \<le> fold max xs (max x a)" by (rule Cons.IH)
  finally show ?case by simp
qed

lemma fold_max_ge_elem: "(x::int) \<in> set xs \<Longrightarrow> x \<le> fold max xs a"
proof (induction xs arbitrary: a)
  case Nil
  then show ?case by simp
next
  case (Cons y ys)
  show ?case
  proof (cases "x = y")
    case True
    have "x \<le> max y a" using True by simp
    also have "\<dots> \<le> fold max ys (max y a)" by (rule fold_max_ge)
    finally show ?thesis by simp
  next
    case False
    with Cons.prems have "x \<in> set ys" by simp
    then show ?thesis using Cons.IH by simp
  qed
qed

lemma next_rowid_gt_seq: "sqlite_sequence t < next_rowid t"
  using fold_max_ge [of "sqlite_sequence t" "map rid (rows t)"] by (simp add: next_rowid_def)

lemma next_rowid_gt_rid: "r \<in> set (rows t) \<Longrightarrow> rid r < next_rowid t"
  using fold_max_ge_elem [of "rid r" "map rid (rows t)" "sqlite_sequence t"]
  by (simp add: next_rowid_def)

lemma go_int_next_rowid:
  assumes "0 \<le> sqlite_sequence t" and "next_rowid t \<le> max_rowid"
  shows "go_int (next_rowid t) = next_rowid t"
proof -
  have "0 < next_rowid t" using assms(1) next_rowid_gt_seq [of t] by simp
  moreover have "next_rowid t < 2 ^ 63" using assms(2) by (simp add: max_rowid_def)
  ultimately show ?thesis by (simp add: go_int_def)
qed

lemma find_set_fields:
  "find (matches L s) (map (set_fields L ti co s) rs)
     = map_option (set_fields L ti co s) (find (matches L s) rs)"
  by (induction rs) (simp_all add: set_fields_def matches_def)

lemma set_fields_no_match:
  "\<forall>r \<in> set rs. \<not> matches L s r \<Longrightarrow> map (set_fields L ti co s) rs = rs"
  by (induction rs) (simp_all add: set_fields_def)

lemma set_fields_idem:
  "set_fields L ti co s (set_fields L ti co s r) = set_fields L ti co s r"
  by (simp add: set_fields_def matches_def)

lemma find_append_new:
  "\<forall>r \<in> set rs. \<not> P r \<Longrightarrow> P x \<Longrightarrow> find P (rs @ [x]) = Some x"
  by (induction rs) simp_all

subsection \<open>The sequence never decreases, and no reply carries an id above it\<close>

text \<open>
  \<open>initialization\<close> on a file without the table creates it empty, with the sequence
  at 0. Every handler keeps the sequence where it is or raises it, and the id in a reply
  of create is at most the sequence after the call.
\<close>

lemma initialization_creates_table:
  "fault e = None \<Longrightarrow>
   initialization e (process_start None) =
     Returns \<lparr>db = None, notes_table = Some \<lparr>rows = [], sqlite_sequence = 0\<rparr>\<rparr>"
  by (simp add: initialization_def sql_Open_def sql_create_table_def process_start_def)

lemma createNote_seq:
  assumes "0 \<le> wseq w" and "createNote L e w reqbody = (out, w')"
  shows "wseq w \<le> wseq w' \<and> (\<forall>i. created_id out = Some i \<longrightarrow> i \<le> wseq w')"
proof (cases "decode L reqbody")
  case (Inl err)
  with assms show ?thesis by (auto simp: createNote_def writer_defs)
next
  case (Inr n)
  show ?thesis
  proof (cases "db w")
    case None
    with Inr assms show ?thesis by (auto simp: createNote_def)
  next
    case (Some h)
    show ?thesis
    proof (cases "sql_insert (fault e) (notes_table w) (Title n) (Content n) (now e)")
      case (Inl err)
      with Inr Some assms show ?thesis by (auto simp: createNote_def writer_defs)
    next
      case ins: (Inr p)
      obtain lastid t' where p: "p = (lastid, t')" by (cases p)
      from ins p obtain t where t: "notes_table w = Some t" "lastid = next_rowid t"
          "sqlite_sequence t' = next_rowid t" "next_rowid t \<le> max_rowid"
        by (auto simp: sql_insert_def split: option.splits if_splits)
      have s: "0 \<le> sqlite_sequence t" using assms(1) t(1) by (simp add: wseq_def)
      have g: "go_int (next_rowid t) = next_rowid t" using s t(4) by (rule go_int_next_rowid)
      have lt: "sqlite_sequence t < next_rowid t" by (rule next_rowid_gt_seq)
      have w': "w' = w\<lparr>notes_table := Some t'\<rparr>"
        using assms(2) Inr Some ins p
        by (auto simp: createNote_def LastInsertId_def Let_def split: sum.splits)
      have mono: "wseq w \<le> wseq w'" using w' t lt by (simp add: wseq_def)
      have ids: "\<forall>i. created_id out = Some i \<longrightarrow> i \<le> wseq w'"
        using assms(2) Inr Some ins p t s lt g w'
        by (auto simp: createNote_def LastInsertId_def Let_def Marshal_Note_def writer_defs
            wseq_def split: sum.splits option.splits)
      from mono ids show ?thesis by simp
    qed
  qed
qed

lemma getNote_seq:
  "getNote L e w idp = (out, w') \<Longrightarrow> w' = w \<and> created_id out = None"
  by (auto simp: getNote_def writer_defs split: option.splits sum.splits if_splits)

lemma getNotes_seq:
  "getNotes L e w = (out, w') \<Longrightarrow> w' = w \<and> created_id out = None"
  by (auto simp: getNotes_def writer_defs split: option.splits sum.splits)

lemma updateNote_seq:
  "updateNote L e w idp reqbody = (out, w') \<Longrightarrow> wseq w' = wseq w \<and> created_id out = None"
  by (auto simp: updateNote_def sql_update_def writer_defs wseq_def
      split: option.splits sum.splits)

lemma deleteNote_seq:
  "deleteNote L e w idp = (out, w') \<Longrightarrow> wseq w' = wseq w \<and> created_id out = None"
  by (auto simp: deleteNote_def sql_delete_def writer_defs wseq_def
      split: option.splits sum.splits)

lemma route_seq:
  assumes "0 \<le> wseq w" and "route L e w rq = (out, w')"
  shows "wseq w \<le> wseq w' \<and> (\<forall>i. created_id out = Some i \<longrightarrow> i \<le> wseq w')"
proof (cases rq)
  case (POST_note b)
  with assms show ?thesis using createNote_seq [of w L e b out w'] by simp
next
  case (GET_note s)
  with assms show ?thesis using getNote_seq [of L e w s out w'] by simp
next
  case GET_notes
  with assms show ?thesis using getNotes_seq [of L e w out w'] by simp
next
  case (PATCH_note s b)
  with assms show ?thesis using updateNote_seq [of L e w s b out w'] by simp
next
  case (DELETE_note s)
  with assms show ?thesis using deleteNote_seq [of L e w s out w'] by simp
qed

lemma serve_seq:
  "0 \<le> wseq w \<Longrightarrow> serve L w hist = (outs, w') \<Longrightarrow>
     wseq w \<le> wseq w' \<and> (\<forall>out \<in> set outs. \<forall>i. created_id out = Some i \<longrightarrow> i \<le> wseq w')"
proof (induction hist arbitrary: w outs w')
  case Nil
  then show ?case by simp
next
  case (Cons x hist)
  obtain e rq where x: "x = (e, rq)" by (cases x)
  obtain out w1 where r: "route L e w rq = (out, w1)" by (cases "route L e w rq")
  obtain outs1 w2 where s: "serve L w1 hist = (outs1, w2)" by (cases "serve L w1 hist")
  from Cons.prems(2) x r s have eq: "outs = out # outs1" "w' = w2" by simp_all
  from route_seq [OF Cons.prems(1) r]
  have r1: "wseq w \<le> wseq w1" and r2: "\<forall>i. created_id out = Some i \<longrightarrow> i \<le> wseq w1"
    by simp_all
  from r1 Cons.prems(1) have "0 \<le> wseq w1" by simp
  from Cons.IH [OF this s]
  have s1: "wseq w1 \<le> wseq w2"
    and s2: "\<forall>o' \<in> set outs1. \<forall>i. created_id o' = Some i \<longrightarrow> i \<le> wseq w2"
    by simp_all
  from r1 s1 have "wseq w \<le> wseq w'" using eq by simp
  moreover have "\<forall>o' \<in> set outs. \<forall>i. created_id o' = Some i \<longrightarrow> i \<le> wseq w'"
    using r2 s1 s2 eq by fastforce
  ultimately show ?case by simp
qed

subsection \<open>The database handle after initialization\<close>

text \<open>
  Claim C1 says that after \<open>initialization()\<close> returns, the package-level \<open>db\<close> is an open,
  non-nil handle, so that every handler can issue its statement. The code does not do
  that: \<open>db, err := sql.Open(...)\<close> assigns a local variable. When \<open>initialization\<close>
  returns in a process that has just started, the package-level \<open>db\<close> is still nil, and
  each of the five handlers panics on its nil handle as soon as it reaches its statement
  (create and update reach it when the body decodes).
\<close>

theorem initialization_leaves_db_nil:
  assumes "initialization e (process_start tb) = Returns w"
  shows "db w = None \<and>
    fst (getNote L e1 w idp) = Panics \<and>
    fst (getNotes L e1 w) = Panics \<and>
    fst (deleteNote L e1 w idp) = Panics \<and>
    (\<forall>n. decode L reqbody = Inr n \<longrightarrow>
       fst (createNote L e1 w reqbody) = Panics \<and>
       fst (updateNote L e1 w idp reqbody) = Panics)"
  using assms
  by (auto simp: initialization_def process_start_def sql_Open_def getNote_def getNotes_def
      deleteNote_def createNote_def updateNote_def Let_def split: sum.splits)

theorem initialization_leaves_db_nil_witness:
  "initialization (quiet 0) (process_start None)
     = Returns \<lparr>db = None, notes_table = Some empty_table\<rparr> \<and>
   db \<lparr>db = None, notes_table = Some empty_table\<rparr> = None \<and>
   fst (getNotes sample_lib (quiet 0) \<lparr>db = None, notes_table = Some empty_table\<rparr>) = Panics \<and>
   fst (createNote sample_lib (quiet 0) \<lparr>db = None, notes_table = Some empty_table\<rparr>
     ''Test|Body'') = Panics"
proof -
  have h: "initialization (quiet 0) (process_start None)
      = Returns \<lparr>db = None, notes_table = Some empty_table\<rparr>"
    by (simp add: initialization_def sql_Open_def sql_create_table_def sample_defs)
  have d: "decode sample_lib ''Test|Body''
      = Inr \<lparr>ID = 0, Title = ''Test'', Content = ''Body'', CreatedAt = 0\<rparr>"
    by (simp add: sample_defs)
  note th = initialization_leaves_db_nil [OF h, of sample_lib "quiet 0" "''1''" "''Test|Body''"]
  from th have "fst (createNote sample_lib (quiet 0)
      \<lparr>db = None, notes_table = Some empty_table\<rparr> ''Test|Body'') = Panics"
    using d by blast
  with h th show ?thesis by simp
qed

subsection \<open>Get-all on an empty store\<close>

text \<open>
  Claim C2 says that get-all on an empty store answers 200 with an empty JSON array, not
  null. The code answers 200 with the document \<open>null\<close>: \<open>var notes []Note\<close> is a nil
  slice, the loop appends nothing to it, and \<open>json.Marshal\<close> encodes a nil slice as
  \<open>null\<close>. This holds for every world with an open handle and an existing, empty table,
  when the driver reports no error.
\<close>

theorem getNotes_empty_store_null:
  "db w = Some h \<Longrightarrow> notes_table w = Some t \<Longrightarrow> rows t = [] \<Longrightarrow> fault e = None \<Longrightarrow>
   getNotes L e w =
     (Returns \<lparr>status = 200, headers = [(''Content-Type'', ''application/json'')],
        body = [Doc JNull]\<rparr>, w)"
  by (simp add: getNotes_def sql_select_all_def Marshal_Notes_def writer_defs)

theorem getNotes_empty_store_null_witness:
  "rows empty_table = [] \<and>
   getNotes sample_lib (quiet 0) (open_world empty_table) =
     (Returns \<lparr>status = 200, headers = [(''Content-Type'', ''application/json'')],
        body = [Doc JNull]\<rparr>, open_world empty_table)"
proof -
  have h: "db (open_world empty_table) = Some (SqlDB ''sqlite3'' ''./notes.db'')"
    by (simp add: sample_defs)
  have t: "notes_table (open_world empty_table) = Some empty_table"
    by (simp add: sample_defs)
  have r: "rows empty_table = []" by (simp add: sample_defs)
  have f: "fault (quiet 0) = None" by (simp add: sample_defs)
  from getNotes_empty_store_null [OF h t r f, of sample_lib] r show ?thesis by simp
qed

text \<open>With one note in the store the same handler writes an array.\<close>

lemma getNotes_one_note_array:
  "getNotes sample_lib (quiet 0) (open_world one_note) =
     (Returns \<lparr>status = 200, headers = [(''Content-Type'', ''application/json'')],
        body = [Doc (JArray [JObject [(''id'', JNumber 1), (''title'', JString ''Test''),
          (''content'', JString ''Body''),
          (''created_at'', JString ''2024-01-01T00:00:00Z'')]])]\<rparr>,
      open_world one_note)"
  by (simp add: handler_defs writer_defs sample_defs)

text \<open>
  When \<open>rows.Next()\<close> meets an error at the first row, the handler does not see it and
  answers 200 with \<open>null\<close> although the store holds a note.
\<close>

lemma getNotes_next_error_unseen:
  "getNotes sample_lib ((quiet 0)\<lparr>next_fault := (\<lambda>k. Some ''disk I/O error'')\<rparr>)
      (open_world one_note) =
     (Returns \<lparr>status = 200, headers = [(''Content-Type'', ''application/json'')],
        body = [Doc JNull]\<rparr>, open_world one_note)"
  by (simp add: handler_defs writer_defs sample_defs)

subsection \<open>Get-one on an id that matches no note\<close>

text \<open>
  As claim C3 states it, get-one on an id without a row answers 404 with an empty body.
  On the empty table, for the id \<open>1\<close>, the answer is a 404 whose body is not empty.
\<close>

theorem getNote_empty_body_counterexample:
  "find (matches sample_lib ''1'') (rows empty_table) = None \<and>
   fst (getNote sample_lib (quiet 0) (open_world empty_table) ''1'') =
     Returns \<lparr>status = 404,
        headers = [(''Content-Type'', ''text/plain; charset=utf-8''),
                   (''X-Content-Type-Options'', ''nosniff'')],
        body = [Text (''404 page not found'' @ [CHR 0x0A])]\<rparr> \<and>
   body \<lparr>status = 404,
        headers = [(''Content-Type'', ''text/plain; charset=utf-8''),
                   (''X-Content-Type-Options'', ''nosniff'')],
        body = [Text (''404 page not found'' @ [CHR 0x0A])]\<rparr> \<noteq> []"
  by (simp add: getNote_def sql_select_one_def writer_defs sample_defs)

text \<open>
  Claim C3, amended: for every id that matches no persisted note, with an open handle, an
  existing table and no error of the driver, get-one answers 404 with the plain-text body
  that \<open>http.NotFound\<close> writes, the line \<open>404 page not found\<close>; no note is written and the
  store is unchanged.
\<close>

theorem getNote_not_found:
  "db w = Some h \<Longrightarrow> notes_table w = Some t \<Longrightarrow> fault e = None \<Longrightarrow>
   \<forall>r \<in> set (rows t). \<not> matches L idp r \<Longrightarrow>
   getNote L e w idp =
     (Returns \<lparr>status = 404,
        headers = [(''Content-Type'', ''text/plain; charset=utf-8''),
                   (''X-Content-Type-Options'', ''nosniff'')],
        body = [Text (''404 page not found'' @ [CHR 0x0A])]\<rparr>, w)"
proof -
  assume a: "db w = Some h" "notes_table w = Some t" "fault e = None"
    and b: "\<forall>r \<in> set (rows t). \<not> matches L idp r"
  from b have "find (matches L idp) (rows t) = None" by (simp add: find_None_iff)
  with a show ?thesis by (simp add: getNote_def sql_select_one_def writer_defs)
qed

theorem getNote_not_found_witness:
  "find (matches sample_lib ''2'') (rows one_note) = None \<and>
   getNote sample_lib (quiet 0) (open_world one_note) ''2'' =
     (Returns \<lparr>status = 404,
        headers = [(''Content-Type'', ''text/plain; charset=utf-8''),
                   (''X-Content-Type-Options'', ''nosniff'')],
        body = [Text (''404 page not found'' @ [CHR 0x0A])]\<rparr>, open_world one_note)"
proof -
  have h: "db (open_world one_note) = Some (SqlDB ''sqlite3'' ''./notes.db'')"
    by (simp add: sample_defs)
  have t: "notes_table (open_world one_note) = Some one_note"
    by (simp add: sample_defs)
  have f: "fault (quiet 0) = None" by (simp add: sample_defs)
  have no: "\<forall>r \<in> set (rows one_note). \<not> matches sample_lib ''2'' r"
    by (simp add: sample_defs matches_def)
  have fi: "find (matches sample_lib ''2'') (rows one_note) = None"
    by (simp add: sample_defs matches_def)
  from getNote_not_found [OF h t f no] fi show ?thesis by simp
qed

subsection \<open>Update overwrites title and content only\<close>

text \<open>
  Claim C4: for every existing note and every body that decodes, update overwrites the
  title and content of the row matching the id and leaves its id and created_at as they
  were, as a get-one on the same id shows before and after. Here \<open>r\<close> is the row that
  get-one finds for the id. With an open handle and no error of the driver, get-one before
  the update answers the fields of \<open>r\<close>; the update answers 200 with no body and maps
  \<open>set_fields\<close> over the rows; get-one after it answers the id and created_at of \<open>r\<close> with
  the decoded title and content; and a row that does not match the id is left as it was.
\<close>

theorem updateNote_frame:
  assumes "db w = Some h" and "notes_table w = Some t"
    and "find (matches L idp) (rows t) = Some r"
    and "decode L reqbody = Inr n"
    and "fault e = None" and "fault e0 = None" and "fault e1 = None"
    and "timeJSON L (rcreated r) = Inr ts"
  shows "getNote L e0 w idp =
      (Returns \<lparr>status = 200, headers = [(''Content-Type'', ''application/json'')],
         body = [Doc (JObject [(''id'', JNumber (rid r)), (''title'', JString (rtitle r)),
           (''content'', JString (rcontent r)), (''created_at'', JString ts)])]\<rparr>, w) \<and>
    updateNote L e w idp reqbody =
      (Returns \<lparr>status = 200, headers = [(''Content-Type'', ''application/json'')], body = []\<rparr>,
       w\<lparr>notes_table := Some (t\<lparr>rows := map (set_fields L (Title n) (Content n) idp) (rows t)\<rparr>)\<rparr>) \<and>
    getNote L e1 (snd (updateNote L e w idp reqbody)) idp =
      (Returns \<lparr>status = 200, headers = [(''Content-Type'', ''application/json'')],
         body = [Doc (JObject [(''id'', JNumber (rid r)), (''title'', JString (Title n)),
           (''content'', JString (Content n)), (''created_at'', JString ts)])]\<rparr>,
       snd (updateNote L e w idp reqbody)) \<and>
    (\<forall>r' \<in> set (rows t). \<not> matches L idp r' \<longrightarrow>
       set_fields L (Title n) (Content n) idp r' = r')"
proof -
  have m: "matches L idp r" using assms(3) by (auto simp: find_Some_iff)
  have before: "getNote L e0 w idp =
      (Returns \<lparr>status = 200, headers = [(''Content-Type'', ''application/json'')],
         body = [Doc (JObject [(''id'', JNumber (rid r)), (''title'', JString (rtitle r)),
           (''content'', JString (rcontent r)), (''created_at'', JString ts)])]\<rparr>, w)"
    using assms
    by (simp add: getNote_def sql_select_one_def Marshal_Note_def Scan_def writer_defs)
  have upd: "updateNote L e w idp reqbody =
      (Returns \<lparr>status = 200, headers = [(''Content-Type'', ''application/json'')], body = []\<rparr>,
       w\<lparr>notes_table := Some (t\<lparr>rows := map (set_fields L (Title n) (Content n) idp) (rows t)\<rparr>)\<rparr>)"
    using assms by (simp add: updateNote_def sql_update_def writer_defs)
  have after: "getNote L e1 (snd (updateNote L e w idp reqbody)) idp =
      (Returns \<lparr>status = 200, headers = [(''Content-Type'', ''application/json'')],
         body = [Doc (JObject [(''id'', JNumber (rid r)), (''title'', JString (Title n)),
           (''content'', JString (Content n)), (''created_at'', JString ts)])]\<rparr>,
       snd (updateNote L e w idp reqbody))"
    using assms m
    by (simp add: upd getNote_def sql_select_one_def find_set_fields set_fields_def
        Marshal_Note_def Scan_def writer_defs)
  have rest: "\<forall>r' \<in> set (rows t). \<not> matches L idp r' \<longrightarrow>
       set_fields L (Title n) (Content n) idp r' = r'"
    by (simp add: set_fields_def)
  from before upd after rest show ?thesis by blast
qed

theorem updateNote_frame_witness:
  "getNote sample_lib (quiet 8) (open_world one_note) ''1'' =
      (Returns \<lparr>status = 200, headers = [(''Content-Type'', ''application/json'')],
         body = [Doc (JObject [(''id'', JNumber 1), (''title'', JString ''Test''),
           (''content'', JString ''Body''), (''created_at'', JString ''2024-01-01T00:00:00Z'')])]\<rparr>,
       open_world one_note) \<and>
   fst (updateNote sample_lib (quiet 9) (open_world one_note) ''1'' ''New|Updated'') =
      Returns \<lparr>status = 200, headers = [(''Content-Type'', ''application/json'')], body = []\<rparr> \<and>
   fst (getNote sample_lib (quiet 10)
      (snd (updateNote sample_lib (quiet 9) (open_world one_note) ''1'' ''New|Updated'')) ''1'') =
      Returns \<lparr>status = 200, headers = [(''Content-Type'', ''application/json'')],
         body = [Doc (JObject [(''id'', JNumber 1), (''title'', JString ''New''),
           (''content'', JString ''Updated''), (''created_at'', JString ''2024-01-01T00:00:00Z'')])]\<rparr>"
proof -
  let ?r = "\<lparr>rid = 1, rtitle = ''Test'', rcontent = ''Body'', rcreated = 7\<rparr>"
  have h: "db (open_world one_note) = Some (SqlDB ''sqlite3'' ''./notes.db'')"
    by (simp add: sample_defs)
  have t: "notes_table (open_world one_note) = Some one_note"
    by (simp add: sample_defs)
  have r: "find (matches sample_lib ''1'') (rows one_note) = Some ?r"
    by (simp add: sample_defs matches_def)
  have d: "decode sample_lib ''New|Updated''
      = Inr \<lparr>ID = 0, Title = ''New'', Content = ''Updated'', CreatedAt = 0\<rparr>"
    by (simp add: sample_defs)
  have f: "fault (quiet 9) = None" "fault (quiet 8) = None" "fault (quiet 10) = None"
    by (simp_all add: sample_defs)
  have j: "timeJSON sample_lib (rcreated ?r) = Inr ''2024-01-01T00:00:00Z''"
    by (simp add: sample_defs)
  note th = updateNote_frame [OF h t r d f j]
  have "getNote sample_lib (quiet 8) (open_world one_note) ''1'' =
      (Returns \<lparr>status = 200, headers = [(''Content-Type'', ''application/json'')],
         body = [Doc (JObject [(''id'', JNumber 1), (''title'', JString ''Test''),
           (''content'', JString ''Body''), (''created_at'', JString ''2024-01-01T00:00:00Z'')])]\<rparr>,
       open_world one_note)"
    and "fst (updateNote sample_lib (quiet 9) (open_world one_note) ''1'' ''New|Updated'') =
      Returns \<lparr>status = 200, headers = [(''Content-Type'', ''application/json'')], body = []\<rparr>"
    and "fst (getNote sample_lib (quiet 10)
      (snd (updateNote sample_lib (quiet 9) (open_world one_note) ''1'' ''New|Updated'')) ''1'') =
      Returns \<lparr>status = 200, headers = [(''Content-Type'', ''application/json'')],
         body = [Doc (JObject [(''id'', JNumber 1), (''title'', JString ''New''),
           (''content'', JString ''Updated''), (''created_at'', JString ''2024-01-01T00:00:00Z'')])]\<rparr>"
    using th [THEN conjunct1] th [THEN conjunct2, THEN conjunct1]
      th [THEN conjunct2, THEN conjunct2, THEN conjunct1]
    by (simp_all add: go_int_def)
  then show ?thesis by simp
qed

subsection \<open>Create answers the populated note\<close>

text \<open>
  Claim C5: for every body that decodes, create on success answers 201 with the JSON of the
  fully populated note: the id that the storage assigned, the decoded title and content,
  and the time the server read at the call. Success is: the handle is open, the table
  exists, the driver reports no error for the insert, the sequence has room, and the time
  encodes. The inserted row carries the same id and time.
\<close>

theorem createNote_created:
  assumes "decode L reqbody = Inr n" and "db w = Some h" and "notes_table w = Some t"
    and "fault e = None"
    and "0 \<le> sqlite_sequence t" and "next_rowid t \<le> max_rowid"
    and "timeJSON L (now e) = Inr ts"
  shows "createNote L e w reqbody =
     (Returns \<lparr>status = 201, headers = [(''Content-Type'', ''application/json'')],
        body = [Doc (JObject [(''id'', JNumber (next_rowid t)), (''title'', JString (Title n)),
          (''content'', JString (Content n)), (''created_at'', JString ts)])]\<rparr>,
      w\<lparr>notes_table := Some \<lparr>rows = rows t @
          [\<lparr>rid = next_rowid t, rtitle = Title n, rcontent = Content n, rcreated = now e\<rparr>],
        sqlite_sequence = next_rowid t\<rparr>\<rparr>)"
  using assms go_int_next_rowid [of t]
  by (simp add: createNote_def sql_insert_def LastInsertId_def Marshal_Note_def writer_defs
      Let_def)

theorem createNote_created_witness:
  "createNote sample_lib (quiet 7) (open_world empty_table) ''Test|Body'' =
     (Returns \<lparr>status = 201, headers = [(''Content-Type'', ''application/json'')],
        body = [Doc (JObject [(''id'', JNumber 1), (''title'', JString ''Test''),
          (''content'', JString ''Body''), (''created_at'', JString ''2024-01-01T00:00:00Z'')])]\<rparr>,
      open_world one_note)"
proof -
  have d: "decode sample_lib ''Test|Body''
      = Inr \<lparr>ID = 0, Title = ''Test'', Content = ''Body'', CreatedAt = 0\<rparr>"
    by (simp add: sample_defs)
  have h: "db (open_world empty_table) = Some (SqlDB ''sqlite3'' ''./notes.db'')"
    by (simp add: sample_defs)
  have t: "notes_table (open_world empty_table) = Some empty_table"
    by (simp add: sample_defs)
  have f: "fault (quiet 7) = None"
    by (simp add: sample_defs)
  have s: "0 \<le> sqlite_sequence empty_table" "next_rowid empty_table \<le> max_rowid"
    by (simp_all add: sample_defs next_rowid_def max_rowid_def)
  have j: "timeJSON sample_lib (now (quiet 7)) = Inr ''2024-01-01T00:00:00Z''"
    by (simp add: sample_defs)
  from createNote_created [OF d h t f s j]
  show ?thesis by (simp add: sample_defs next_rowid_def)
qed

subsection \<open>Create, then get-one\<close>

text \<open>
  Claim C6: for every body that decodes, create followed by get-one with the id that create
  returned yields a note with the created title and content and with that id, which is
  positive and distinct from every id assigned before. The requests \<open>hist\<close> are served
  first, from a world whose sequence is not negative; then create answers 201 with the id
  \<open>i\<close>, and get-one is asked for a text that reads as
  \<open>i\<close>. Then \<open>i\<close> is positive, no earlier reply of create carries \<open>i\<close>, no row that was in
  the table before carries \<open>i\<close>, and get-one answers 200 with the id \<open>i\<close> and the decoded
  title and content.
\<close>

theorem create_then_get:
  assumes "0 \<le> wseq w0" and "serve L w0 hist = (outs, w)"
    and "createNote L e w reqbody = (Returns resp, w')"
    and "status resp = 201"
    and "created_id (Returns resp) = Some i"
    and "numeric L idp = Some i" and "fault e' = None"
  shows "0 < i \<and> (\<forall>out \<in> set outs. created_id out \<noteq> Some i) \<and>
    (\<forall>t. notes_table w = Some t \<longrightarrow> (\<forall>r \<in> set (rows t). rid r \<noteq> i)) \<and>
    (\<exists>n ts. decode L reqbody = Inr n \<and> timeJSON L (now e) = Inr ts \<and>
       getNote L e' w' idp =
        (Returns \<lparr>status = 200, headers = [(''Content-Type'', ''application/json'')],
           body = [Doc (JObject [(''id'', JNumber i), (''title'', JString (Title n)),
             (''content'', JString (Content n)), (''created_at'', JString ts)])]\<rparr>, w'))"
proof -
  from serve_seq [OF assms(1,2)]
  have w0: "0 \<le> wseq w"
    and old: "\<forall>out \<in> set outs. \<forall>j. created_id out = Some j \<longrightarrow> j \<le> wseq w"
    using assms(1) by simp_all
  from assms(3,4) obtain n where n: "decode L reqbody = Inr n"
    by (cases "decode L reqbody") (auto simp: createNote_def writer_defs)
  from assms(3) n obtain h where h: "db w = Some h"
    by (cases "db w") (auto simp: createNote_def)
  from assms(3,4) n h obtain lastid t' where
    ins: "sql_insert (fault e) (notes_table w) (Title n) (Content n) (now e) = Inr (lastid, t')"
    by (cases "sql_insert (fault e) (notes_table w) (Title n) (Content n) (now e)")
      (auto simp: createNote_def writer_defs)
  from ins obtain t where t: "notes_table w = Some t" "lastid = next_rowid t"
      "next_rowid t \<le> max_rowid"
      "t' = \<lparr>rows = rows t @
          [\<lparr>rid = next_rowid t, rtitle = Title n, rcontent = Content n, rcreated = now e\<rparr>],
        sqlite_sequence = next_rowid t\<rparr>"
    by (auto simp: sql_insert_def split: option.splits if_splits)
  have s: "0 \<le> sqlite_sequence t" using w0 t(1) by (simp add: wseq_def)
  have g: "go_int (next_rowid t) = next_rowid t" using s t(3) by (rule go_int_next_rowid)
  have lt: "sqlite_sequence t < next_rowid t" by (rule next_rowid_gt_seq)
  from assms(3,4) n h ins obtain ts where ts: "timeJSON L (now e) = Inr ts"
    by (cases "timeJSON L (now e)")
      (auto simp: createNote_def LastInsertId_def Let_def Marshal_Note_def writer_defs)
  have w': "w' = w\<lparr>notes_table := Some t'\<rparr>"
    using assms(3) n h ins
    by (auto simp: createNote_def LastInsertId_def Let_def split: sum.splits)
  have i: "i = next_rowid t"
    using assms(3,5) n h ins ts t(2) g
    by (auto simp: createNote_def LastInsertId_def Let_def Marshal_Note_def writer_defs)
  have pos: "0 < i" using i s lt by simp
  have fresh: "\<forall>out \<in> set outs. created_id out \<noteq> Some i"
  proof
    fix out assume "out \<in> set outs"
    with old have "\<forall>j. created_id out = Some j \<longrightarrow> j \<le> wseq w" by simp
    moreover have "wseq w < i" using i lt t(1) by (simp add: wseq_def)
    ultimately show "created_id out \<noteq> Some i" by auto
  qed
  have norow: "\<forall>r \<in> set (rows t). rid r \<noteq> i"
  proof
    fix r assume "r \<in> set (rows t)"
    then have "rid r < next_rowid t" by (rule next_rowid_gt_rid)
    then show "rid r \<noteq> i" using i by simp
  qed
  then have nomatch: "\<forall>r \<in> set (rows t). \<not> matches L idp r"
    using assms(6) by (auto simp: matches_def)
  have f: "find (matches L idp) (rows t') =
      Some \<lparr>rid = next_rowid t, rtitle = Title n, rcontent = Content n, rcreated = now e\<rparr>"
    unfolding t(4) using nomatch assms(6) i
    by (simp add: find_append_new matches_def)
  have get: "getNote L e' w' idp =
      (Returns \<lparr>status = 200, headers = [(''Content-Type'', ''application/json'')],
         body = [Doc (JObject [(''id'', JNumber i), (''title'', JString (Title n)),
           (''content'', JString (Content n)), (''created_at'', JString ts)])]\<rparr>, w')"
    using h f ts g i assms(7)
    by (simp add: w' getNote_def sql_select_one_def Marshal_Note_def Scan_def writer_defs)
  from pos fresh norow n ts get t(1) show ?thesis by auto
qed

theorem create_then_get_witness:
  "serve sample_lib (open_world empty_table) [(quiet 7, POST_note ''Test|Body'')] =
     ([Returns \<lparr>status = 201, headers = [(''Content-Type'', ''application/json'')],
        body = [Doc (JObject [(''id'', JNumber 1), (''title'', JString ''Test''),
          (''content'', JString ''Body''), (''created_at'', JString ''2024-01-01T00:00:00Z'')])]\<rparr>],
      open_world one_note) \<and>
   fst (createNote sample_lib (quiet 8) (open_world one_note) ''New|Updated'') =
     Returns \<lparr>status = 201, headers = [(''Content-Type'', ''application/json'')],
        body = [Doc (JObject [(''id'', JNumber 2), (''title'', JString ''New''),
          (''content'', JString ''Updated''), (''created_at'', JString ''2024-01-01T00:00:00Z'')])]\<rparr> \<and>
   fst (getNote sample_lib (quiet 9)
      (snd (createNote sample_lib (quiet 8) (open_world one_note) ''New|Updated'')) ''2'') =
     Returns \<lparr>status = 200, headers = [(''Content-Type'', ''application/json'')],
        body = [Doc (JObject [(''id'', JNumber 2), (''title'', JString ''New''),
          (''content'', JString ''Updated''), (''created_at'', JString ''2024-01-01T00:00:00Z'')])]\<rparr> \<and>
   (0::int) < 2"
proof -
  let ?R1 = "\<lparr>status = 201, headers = [(''Content-Type'', ''application/json'')],
        body = [Doc (JObject [(''id'', JNumber 1), (''title'', JString ''Test''),
          (''content'', JString ''Body''), (''created_at'', JString ''2024-01-01T00:00:00Z'')])]\<rparr>"
  let ?R2 = "\<lparr>status = 201, headers = [(''Content-Type'', ''application/json'')],
        body = [Doc (JObject [(''id'', JNumber 2), (''title'', JString ''New''),
          (''content'', JString ''Updated''), (''created_at'', JString ''2024-01-01T00:00:00Z'')])]\<rparr>"
  let ?w' = "snd (createNote sample_lib (quiet 8) (open_world one_note) ''New|Updated'')"
  have s0: "0 \<le> wseq (open_world empty_table)"
    by (simp add: wseq_def sample_defs)
  have sv: "serve sample_lib (open_world empty_table) [(quiet 7, POST_note ''Test|Body'')] =
     ([Returns ?R1], open_world one_note)"
    by (simp add: handler_defs writer_defs sample_defs)
  have c1: "fst (createNote sample_lib (quiet 8) (open_world one_note) ''New|Updated'') = Returns ?R2"
    by (simp add: handler_defs writer_defs sample_defs)
  then have cr: "createNote sample_lib (quiet 8) (open_world one_note) ''New|Updated'' = (Returns ?R2, ?w')"
    by (simp add: prod_eq_iff)
  have st: "status ?R2 = 201" by simp
  have ci: "created_id (Returns ?R2) = Some 2" by (simp add: StatusCreated_def)
  have nu: "numeric sample_lib ''2'' = Some 2" by (simp add: sample_defs)
  have f: "fault (quiet 9) = None" by (simp add: sample_defs)
  note th = create_then_get [OF s0 sv cr st ci nu f]
  have g: "fst (getNote sample_lib (quiet 9) ?w' ''2'') =
     Returns \<lparr>status = 200, headers = [(''Content-Type'', ''application/json'')],
        body = [Doc (JObject [(''id'', JNumber 2), (''title'', JString ''New''),
          (''content'', JString ''Updated''), (''created_at'', JString ''2024-01-01T00:00:00Z'')])]\<rparr>"
    using th [THEN conjunct2, THEN conjunct2, THEN conjunct2]
    by (auto simp: sample_defs)
  from sv c1 g th [THEN conjunct1] show ?thesis by simp
qed

subsection \<open>Update and delete of an id that matches no row\<close>

text \<open>
  Claim C7: for every id, update (with a fixed body that decodes) and delete on an id that
  matches no row succeed with the same 200 answer as when a row is affected. In the world
  \<open>w\<close> no row matches the id; its handle is open and the driver reports no error. Then
  delete and update answer 200 with the JSON content type and no body, and leave the store
  as it was; and in every world \<open>w'\<close> with an open handle, an existing table and no error of
  the driver, whatever its rows, the answer is the same one.
\<close>

theorem zero_rows_not_distinguished:
  assumes "db w = Some h" and "notes_table w = Some t" and "fault e = None"
    and "\<forall>r \<in> set (rows t). \<not> matches L idp r"
  shows "deleteNote L e w idp =
      (Returns \<lparr>status = 200, headers = [(''Content-Type'', ''application/json'')], body = []\<rparr>, w) \<and>
    (\<forall>e' w' h' t'. db w' = Some h' \<and> notes_table w' = Some t' \<and> fault e' = None \<longrightarrow>
       fst (deleteNote L e' w' idp) = fst (deleteNote L e w idp)) \<and>
    (\<forall>n. decode L reqbody = Inr n \<longrightarrow>
       updateNote L e w idp reqbody =
         (Returns \<lparr>status = 200, headers = [(''Content-Type'', ''application/json'')], body = []\<rparr>,
          w) \<and>
       (\<forall>e' w' h' t'. db w' = Some h' \<and> notes_table w' = Some t' \<and> fault e' = None \<longrightarrow>
          fst (updateNote L e' w' idp reqbody) = fst (updateNote L e w idp reqbody)))"
proof -
  have 2: "filter (\<lambda>r. \<not> matches L idp r) (rows t) = rows t"
    using assms(4) by (simp add: filter_id_conv)
  have w: "w\<lparr>notes_table := Some t\<rparr> = w" using assms(2) by simp
  have c: "deleteNote L e w idp =
      (Returns \<lparr>status = 200, headers = [(''Content-Type'', ''application/json'')], body = []\<rparr>, w)"
    using assms(1,2,3) by (simp add: deleteNote_def sql_delete_def writer_defs 2 w)
  have d: "\<forall>e' w' h' t'. db w' = Some h' \<and> notes_table w' = Some t' \<and> fault e' = None \<longrightarrow>
       fst (deleteNote L e' w' idp) = fst (deleteNote L e w idp)"
  proof (intro allI impI)
    fix e' :: io and w' :: world and h' :: sqlDB and t' :: table
    assume "db w' = Some h' \<and> notes_table w' = Some t' \<and> fault e' = None"
    then have "fst (deleteNote L e' w' idp) =
        Returns \<lparr>status = 200, headers = [(''Content-Type'', ''application/json'')], body = []\<rparr>"
      by (simp add: deleteNote_def sql_delete_def writer_defs)
    then show "fst (deleteNote L e' w' idp) = fst (deleteNote L e w idp)" using c by simp
  qed
  have u: "\<forall>n. decode L reqbody = Inr n \<longrightarrow>
       updateNote L e w idp reqbody =
         (Returns \<lparr>status = 200, headers = [(''Content-Type'', ''application/json'')], body = []\<rparr>,
          w) \<and>
       (\<forall>e' w' h' t'. db w' = Some h' \<and> notes_table w' = Some t' \<and> fault e' = None \<longrightarrow>
          fst (updateNote L e' w' idp reqbody) = fst (updateNote L e w idp reqbody))"
  proof (intro allI impI)
    fix n assume n: "decode L reqbody = Inr n"
    have 1: "map (set_fields L (Title n) (Content n) idp) (rows t) = rows t"
      using assms(4) by (rule set_fields_no_match)
    have a: "updateNote L e w idp reqbody =
      (Returns \<lparr>status = 200, headers = [(''Content-Type'', ''application/json'')], body = []\<rparr>, w)"
      using assms(1,2,3) n by (simp add: updateNote_def sql_update_def writer_defs 1 w)
    have b: "\<forall>e' w' h' t'. db w' = Some h' \<and> notes_table w' = Some t' \<and> fault e' = None \<longrightarrow>
          fst (updateNote L e' w' idp reqbody) = fst (updateNote L e w idp reqbody)"
    proof (intro allI impI)
      fix e' :: io and w' :: world and h' :: sqlDB and t' :: table
      assume "db w' = Some h' \<and> notes_table w' = Some t' \<and> fault e' = None"
      then have "fst (updateNote L e' w' idp reqbody) =
          Returns \<lparr>status = 200, headers = [(''Content-Type'', ''application/json'')], body = []\<rparr>"
        using n by (simp add: updateNote_def sql_update_def writer_defs)
      then show "fst (updateNote L e' w' idp reqbody) = fst (updateNote L e w idp reqbody)"
        using a by simp
    qed
    from a b show "updateNote L e w idp reqbody =
         (Returns \<lparr>status = 200, headers = [(''Content-Type'', ''application/json'')], body = []\<rparr>,
          w) \<and>
       (\<forall>e' w' h' t'. db w' = Some h' \<and> notes_table w' = Some t' \<and> fault e' = None \<longrightarrow>
          fst (updateNote L e' w' idp reqbody) = fst (updateNote L e w idp reqbody))"
      by simp
  qed
  from c d u show ?thesis by simp
qed

text \<open>
  At the id \<open>1\<close>: the empty table has no row for it and the table \<open>one_note\<close> has one. At
  the id \<open>abc\<close>, which reads as no integer, no row of \<open>one_note\<close> matches.
\<close>

theorem zero_rows_not_distinguished_witness:
  "updateNote sample_lib (quiet 9) (open_world empty_table) ''1'' ''New|Updated'' =
      (Returns \<lparr>status = 200, headers = [(''Content-Type'', ''application/json'')], body = []\<rparr>,
       open_world empty_table) \<and>
   fst (updateNote sample_lib (quiet 9) (open_world one_note) ''1'' ''New|Updated'') =
      Returns \<lparr>status = 200, headers = [(''Content-Type'', ''application/json'')], body = []\<rparr> \<and>
   deleteNote sample_lib (quiet 9) (open_world empty_table) ''1'' =
      (Returns \<lparr>status = 200, headers = [(''Content-Type'', ''application/json'')], body = []\<rparr>,
       open_world empty_table) \<and>
   fst (deleteNote sample_lib (quiet 9) (open_world one_note) ''1'') =
      Returns \<lparr>status = 200, headers = [(''Content-Type'', ''application/json'')], body = []\<rparr> \<and>
   updateNote sample_lib (quiet 9) (open_world one_note) ''abc'' ''New|Updated'' =
      (Returns \<lparr>status = 200, headers = [(''Content-Type'', ''application/json'')], body = []\<rparr>,
       open_world one_note) \<and>
   deleteNote sample_lib (quiet 9) (open_world one_note) ''abc'' =
      (Returns \<lparr>status = 200, headers = [(''Content-Type'', ''application/json'')], body = []\<rparr>,
       open_world one_note)"
proof -
  have h: "db (open_world empty_table) = Some (SqlDB ''sqlite3'' ''./notes.db'')"
    and h': "db (open_world one_note) = Some (SqlDB ''sqlite3'' ''./notes.db'')"
    by (simp_all add: sample_defs)
  have t: "notes_table (open_world empty_table) = Some empty_table"
    and t': "notes_table (open_world one_note) = Some one_note"
    by (simp_all add: sample_defs)
  have f: "fault (quiet 9) = None" by (simp add: sample_defs)
  have d: "decode sample_lib ''New|Updated''
      = Inr \<lparr>ID = 0, Title = ''New'', Content = ''Updated'', CreatedAt = 0\<rparr>"
    by (simp add: sample_defs)
  have no: "\<forall>r \<in> set (rows empty_table). \<not> matches sample_lib ''1'' r"
    by (simp add: sample_defs)
  have no': "\<forall>r \<in> set (rows one_note). \<not> matches sample_lib ''abc'' r"
    by (simp add: sample_defs matches_def)
  note th = zero_rows_not_distinguished [OF h t f no, of "''New|Updated''"]
  note th' = zero_rows_not_distinguished [OF h' t' f no', of "''New|Updated''"]
  have del0: "deleteNote sample_lib (quiet 9) (open_world empty_table) ''1'' =
      (Returns \<lparr>status = 200, headers = [(''Content-Type'', ''application/json'')], body = []\<rparr>,
       open_world empty_table)"
    by (rule th [THEN conjunct1])
  have del1: "fst (deleteNote sample_lib (quiet 9) (open_world one_note) ''1'') =
      fst (deleteNote sample_lib (quiet 9) (open_world empty_table) ''1'')"
    using th [THEN conjunct2, THEN conjunct1] h' t' f by blast
  have upd0: "updateNote sample_lib (quiet 9) (open_world empty_table) ''1'' ''New|Updated'' =
      (Returns \<lparr>status = 200, headers = [(''Content-Type'', ''application/json'')], body = []\<rparr>,
       open_world empty_table)"
    using th [THEN conjunct2, THEN conjunct2] d by blast
  have upd1: "fst (updateNote sample_lib (quiet 9) (open_world one_note) ''1'' ''New|Updated'') =
      fst (updateNote sample_lib (quiet 9) (open_world empty_table) ''1'' ''New|Updated'')"
    using th [THEN conjunct2, THEN conjunct2] d h' t' f by blast
  have del2: "deleteNote sample_lib (quiet 9) (open_world one_note) ''abc'' =
      (Returns \<lparr>status = 200, headers = [(''Content-Type'', ''application/json'')], body = []\<rparr>,
       open_world one_note)"
    by (rule th' [THEN conjunct1])
  have upd2: "updateNote sample_lib (quiet 9) (open_world one_note) ''abc'' ''New|Updated'' =
      (Returns \<lparr>status = 200, headers = [(''Content-Type'', ''application/json'')], body = []\<rparr>,
       open_world one_note)"
    using th' [THEN conjunct2, THEN conjunct2] d by blast
  from del0 del1 upd0 upd1 del2 upd2 show ?thesis by simp
qed

subsection \<open>A body that does not decode\<close>

text \<open>
  Claim C8: for every body on which the JSON decoder fails, create and update answer 400
  with the text of the decode error as the message (\<open>http.Error\<close> prints it as one line),
  and the store is left unchanged. This holds in every world and whatever the driver
  would have answered: no statement is reached.
\<close>

theorem decode_failure_bad_request:
  "decode L reqbody = Inl err \<Longrightarrow>
   createNote L e w reqbody =
     (Returns \<lparr>status = 400,
        headers = [(''Content-Type'', ''text/plain; charset=utf-8''),
                   (''X-Content-Type-Options'', ''nosniff'')],
        body = [Text (err @ [CHR 0x0A])]\<rparr>, w) \<and>
   updateNote L e w idp reqbody =
     (Returns \<lparr>status = 400,
        headers = [(''Content-Type'', ''text/plain; charset=utf-8''),
                   (''X-Content-Type-Options'', ''nosniff'')],
        body = [Text (err @ [CHR 0x0A])]\<rparr>, w)"
  by (simp add: createNote_def updateNote_def writer_defs)

theorem decode_failure_bad_request_witness:
  "decode sample_lib ''Test'' = Inl ''invalid character'' \<and>
   createNote sample_lib (quiet 5) (open_world one_note) ''Test'' =
     (Returns \<lparr>status = 400,
        headers = [(''Content-Type'', ''text/plain; charset=utf-8''),
                   (''X-Content-Type-Options'', ''nosniff'')],
        body = [Text (''invalid character'' @ [CHR 0x0A])]\<rparr>, open_world one_note) \<and>
   updateNote sample_lib (quiet 5) (open_world one_note) ''1'' ''Test'' =
     (Returns \<lparr>status = 400,
        headers = [(''Content-Type'', ''text/plain; charset=utf-8''),
                   (''X-Content-Type-Options'', ''nosniff'')],
        body = [Text (''invalid character'' @ [CHR 0x0A])]\<rparr>, open_world one_note)"
proof -
  have h: "decode sample_lib ''Test'' = Inl ''invalid character''"
    by (simp add: sample_defs)
  from decode_failure_bad_request [OF h, of "quiet 5" "open_world one_note" "''1''"] h
  show ?thesis by simp
qed

subsection \<open>Update and delete are idempotent on the store\<close>

text \<open>
  Claim C9: for every world, id and body, applying the same update twice, or the same
  delete twice, leaves the store as applying it once does. The driver answers the second
  call as it answered the first.
\<close>

theorem update_delete_idempotent:
  assumes "fault e2 = fault e1"
  shows "snd (updateNote L e2 (snd (updateNote L e1 w idp reqbody)) idp reqbody)
      = snd (updateNote L e1 w idp reqbody) \<and>
    snd (deleteNote L e2 (snd (deleteNote L e1 w idp)) idp) = snd (deleteNote L e1 w idp)"
  using assms
  by (auto simp: updateNote_def deleteNote_def sql_update_def sql_delete_def set_fields_idem
      split: sum.splits option.splits)

theorem update_delete_idempotent_witness:
  "snd (updateNote sample_lib (quiet 2)
      (snd (updateNote sample_lib (quiet 1) (open_world one_note) ''1'' ''New|Updated''))
      ''1'' ''New|Updated'')
     = snd (updateNote sample_lib (quiet 1) (open_world one_note) ''1'' ''New|Updated'') \<and>
   snd (deleteNote sample_lib (quiet 2)
      (snd (deleteNote sample_lib (quiet 1) (open_world one_note) ''1'')) ''1'')
     = snd (deleteNote sample_lib (quiet 1) (open_world one_note) ''1'')"
proof -
  have f: "fault (quiet 2) = fault (quiet 1)" by (simp add: sample_defs)
  from update_delete_idempotent [OF f] show ?thesis by simp
qed

subsection \<open>The discarded error of LastInsertId\<close>

text \<open>
  What a reply 201 of create says about the call: the body decoded, the table existed and
  had room, the time encoded, the reply carries the new rowid converted to \<open>int\<close>, and the
  new row is the last of the table.
\<close>

lemma createNote_201:
  assumes "createNote L e w reqbody = (Returns resp, w')" and "status resp = 201"
    and "notes_table w = Some t"
  shows "\<exists>n ts. decode L reqbody = Inr n \<and>
    next_rowid t \<le> max_rowid \<and> timeJSON L (now e) = Inr ts \<and>
    resp = \<lparr>status = 201, headers = [(''Content-Type'', ''application/json'')],
      body = [Doc (JObject [(''id'', JNumber (go_int (next_rowid t))),
        (''title'', JString (Title n)), (''content'', JString (Content n)),
        (''created_at'', JString ts)])]\<rparr> \<and>
    w' = w\<lparr>notes_table := Some \<lparr>rows = rows t @
        [\<lparr>rid = next_rowid t, rtitle = Title n, rcontent = Content n, rcreated = now e\<rparr>],
      sqlite_sequence = next_rowid t\<rparr>\<rparr>"
proof -
  from assms(1,2) obtain n where n: "decode L reqbody = Inr n"
    by (cases "decode L reqbody") (auto simp: createNote_def writer_defs)
  from assms(1) n obtain h where h: "db w = Some h"
    by (cases "db w") (auto simp: createNote_def)
  from assms(1,2) n h obtain rowid t' where
    ins: "sql_insert (fault e) (notes_table w) (Title n) (Content n) (now e) = Inr (rowid, t')"
    by (cases "sql_insert (fault e) (notes_table w) (Title n) (Content n) (now e)")
      (auto simp: createNote_def writer_defs)
  from ins assms(3) have t: "rowid = next_rowid t" "next_rowid t \<le> max_rowid"
      "t' = \<lparr>rows = rows t @
          [\<lparr>rid = next_rowid t, rtitle = Title n, rcontent = Content n, rcreated = now e\<rparr>],
        sqlite_sequence = next_rowid t\<rparr>"
    by (auto simp: sql_insert_def split: option.splits if_splits)
  from assms(1,2) n h ins obtain ts where ts: "timeJSON L (now e) = Inr ts"
    by (cases "timeJSON L (now e)")
      (auto simp: createNote_def LastInsertId_def Let_def Marshal_Note_def writer_defs)
  from assms(1) n h ins ts t show ?thesis
    by (auto simp: createNote_def LastInsertId_def Let_def Marshal_Note_def writer_defs)
qed

text \<open>
  As claim C10 states it, there are executions in which \<open>LastInsertId\<close> fails after a
  successful insert and create answers 201 with the id 0 in place of the assigned one.
  There are none: \<open>LastInsertId\<close> of the linked driver reports an error for no rowid, and
  from a table whose sequence is not negative no call of create, in any world and for any
  body, answers 201 with the id 0.
\<close>

theorem createNote_zero_id_counterexample:
  "(\<forall>rowid. snd (LastInsertId rowid) = None) \<and>
   \<not> (\<exists>L e w reqbody resp w' t.
        createNote L e w reqbody = (Returns resp, w') \<and> status resp = 201 \<and>
        notes_table w = Some t \<and> 0 \<le> sqlite_sequence t \<and>
        created_id (Returns resp) = Some 0)"
proof (intro conjI notI)
  show "\<forall>rowid. snd (LastInsertId rowid) = None" by (simp add: LastInsertId_def)
next
  assume "\<exists>L e w reqbody resp w' t.
        createNote L e w reqbody = (Returns resp, w') \<and> status resp = 201 \<and>
        notes_table w = Some t \<and> 0 \<le> sqlite_sequence t \<and>
        created_id (Returns resp) = Some 0"
  then obtain L e w reqbody resp w' t where
    c: "createNote L e w reqbody = (Returns resp, w')" and s: "status resp = 201"
    and t: "notes_table w = Some t" and q: "0 \<le> sqlite_sequence t"
    and z: "created_id (Returns resp) = Some 0"
    by blast
  note facts = createNote_201 [OF c s t]
  have m: "next_rowid t \<le> max_rowid" using facts by (elim exE conjE)
  have i: "created_id (Returns resp) = Some (go_int (next_rowid t))"
    using facts by (auto simp: StatusCreated_def)
  have "go_int (next_rowid t) = next_rowid t" using q m by (rule go_int_next_rowid)
  with i z have "next_rowid t = 0" by simp
  moreover have "sqlite_sequence t < next_rowid t" by (rule next_rowid_gt_seq)
  ultimately show False using q by simp
qed

text \<open>
  Claim C10, amended: in the create operation the error from \<open>LastInsertId\<close> is discarded,
  and with the linked driver there is none to discard: it returns the rowid of the insert
  with a nil error. So whenever create answers 201, from a table whose sequence is not
  negative, the body carries the id that the storage assigned to the inserted row, which
  is positive, and never the zero value in its place.
\<close>

theorem createNote_returns_assigned_id:
  assumes "createNote L e w reqbody = (Returns resp, w')" and "status resp = 201"
    and "notes_table w = Some t" and "0 \<le> sqlite_sequence t"
  shows "LastInsertId (next_rowid t) = (next_rowid t, None) \<and>
    created_id (Returns resp) = Some (next_rowid t) \<and> 0 < next_rowid t \<and>
    (\<exists>n. decode L reqbody = Inr n \<and>
       w' = w\<lparr>notes_table := Some \<lparr>rows = rows t @
           [\<lparr>rid = next_rowid t, rtitle = Title n, rcontent = Content n, rcreated = now e\<rparr>],
         sqlite_sequence = next_rowid t\<rparr>\<rparr>)"
proof -
  note facts = createNote_201 [OF assms(1,2,3)]
  have m: "next_rowid t \<le> max_rowid" using facts by (elim exE conjE)
  have g: "go_int (next_rowid t) = next_rowid t" using assms(4) m by (rule go_int_next_rowid)
  have "created_id (Returns resp) = Some (go_int (next_rowid t))"
    using facts by (auto simp: StatusCreated_def)
  then have i: "created_id (Returns resp) = Some (next_rowid t)" using g by simp
  have n: "\<exists>n. decode L reqbody = Inr n \<and>
       w' = w\<lparr>notes_table := Some \<lparr>rows = rows t @
           [\<lparr>rid = next_rowid t, rtitle = Title n, rcontent = Content n, rcreated = now e\<rparr>],
         sqlite_sequence = next_rowid t\<rparr>\<rparr>"
    using facts by (elim exE conjE) (rule exI, rule conjI)
  have p: "0 < next_rowid t" using assms(4) next_rowid_gt_seq [of t] by simp
  have l: "LastInsertId (next_rowid t) = (next_rowid t, None)" by (simp add: LastInsertId_def)
  from l i p n show ?thesis by simp
qed

theorem createNote_returns_assigned_id_witness:
  "fst (createNote sample_lib (quiet 7) (open_world empty_table) ''Test|Body'') =
     Returns \<lparr>status = 201, headers = [(''Content-Type'', ''application/json'')],
        body = [Doc (JObject [(''id'', JNumber 1), (''title'', JString ''Test''),
          (''content'', JString ''Body''), (''created_at'', JString ''2024-01-01T00:00:00Z'')])]\<rparr> \<and>
   LastInsertId (next_rowid empty_table) = (next_rowid empty_table, None) \<and>
   next_rowid empty_table = 1 \<and>
   created_id (Returns \<lparr>status = 201, headers = [(''Content-Type'', ''application/json'')],
        body = [Doc (JObject [(''id'', JNumber 1), (''title'', JString ''Test''),
          (''content'', JString ''Body''), (''created_at'', JString ''2024-01-01T00:00:00Z'')])]\<rparr>)
     = Some (next_rowid empty_table)"
proof -
  let ?R = "\<lparr>status = 201, headers = [(''Content-Type'', ''application/json'')],
        body = [Doc (JObject [(''id'', JNumber 1), (''title'', JString ''Test''),
          (''content'', JString ''Body''), (''created_at'', JString ''2024-01-01T00:00:00Z'')])]\<rparr>"
  let ?w' = "snd (createNote sample_lib (quiet 7) (open_world empty_table) ''Test|Body'')"
  have c1: "fst (createNote sample_lib (quiet 7) (open_world empty_table) ''Test|Body'')
      = Returns ?R"
    by (simp add: handler_defs writer_defs sample_defs)
  then have c: "createNote sample_lib (quiet 7) (open_world empty_table) ''Test|Body''
      = (Returns ?R, ?w')"
    by (simp add: prod_eq_iff)
  have s: "status ?R = 201" by simp
  have t: "notes_table (open_world empty_table) = Some empty_table"
    by (simp add: sample_defs)
  have q: "0 \<le> sqlite_sequence empty_table" by (simp add: sample_defs)
  have n1: "next_rowid empty_table = 1" by (simp add: next_rowid_def sample_defs)
  note th = createNote_returns_assigned_id [OF c s t q]
  from c1 th [THEN conjunct1] th [THEN conjunct2, THEN conjunct1] n1 show ?thesis by simp
qed

end
